theory Spec2Isabelle
  imports Main
begin

section \<open>Data model (models.ts)\<close>

text \<open>
  Modelled from the spec: the type declarations of \<^verbatim>\<open>models.ts\<close> (Player, Turn, LegState,
  SetState, GameType) are not among the sources; the records below follow section 3 of the
  specification and the field accesses made by \<^verbatim>\<open>ui.ts\<close> and \<^verbatim>\<open>main.ts\<close>
  (\<^verbatim>\<open>player.id\<close>, \<^verbatim>\<open>player.name\<close>, \<^verbatim>\<open>player.legsWon\<close>, \<^verbatim>\<open>turn.playerId\<close>,
  \<^verbatim>\<open>turn.points\<close>, \<^verbatim>\<open>turn.runningScore\<close>, \<^verbatim>\<open>leg.legNumber\<close>, \<^verbatim>\<open>leg.turns\<close>,
  \<^verbatim>\<open>leg.isFinished\<close>, \<^verbatim>\<open>setState.gameType\<close>, \<^verbatim>\<open>setState.maxLegs\<close>,
  \<^verbatim>\<open>setState.players\<close>, \<^verbatim>\<open>setState.currentLeg\<close>, \<^verbatim>\<open>setState.isFinished\<close>).
  Numbers that the program only ever uses as integers are \<open>int\<close>. A reference to a Player
  (the winner of a leg, of the set, of an addTurn result) is the Player's value at the moment
  the reference is stored; no operation changes a player while such a reference is readable.
  The field \<open>startingScore\<close> is the starting value of the leg: the query
  \<^verbatim>\<open>getRemainingScoreForPlayer(leg, playerId)\<close> receives the leg only, so the leg has to
  carry it.
\<close>

type_synonym PlayerId = nat

record Player =
  player_id :: PlayerId
  name :: string
  legsWon :: int

record Turn =
  playerId :: PlayerId
  points :: int
  runningScore :: int

record LegState =
  legNumber :: int
  startingScore :: int
  turns :: "Turn list"
  leg_isFinished :: bool
  leg_winner :: "Player option"

record SetState =
  gameType :: int
  maxLegs :: int
  players :: "Player list"
  currentLeg :: "LegState option"
  isFinished :: bool
  winner :: "Player option"

text \<open>The value returned by \<^verbatim>\<open>addTurn\<close>: \<^verbatim>\<open>{ legFinished: boolean, winner?: Player }\<close>.\<close>

record AddTurnResult =
  legFinished :: bool
  result_winner :: "Player option"

text \<open>
  A JavaScript number, as far as the adapter distinguishes numbers: an integer
  (\<^verbatim>\<open>Number.isInteger\<close> holds; \<open>-0\<close> is \<open>JInt 0\<close>), or anything else (NaN, an infinity, a
  finite number with a fractional part). The adapter hands the \<^verbatim>\<open>gameType\<close> and
  \<^verbatim>\<open>maxLegs\<close> of the setup form to \<^verbatim>\<open>startNewSet\<close> as such numbers, unchecked.
\<close>

datatype jsnum = JInt int | JNonInt

section \<open>The functions imported from state.ts, as parameters of the adapter\<close>

text \<open>
  \<^verbatim>\<open>main.ts\<close> and \<^verbatim>\<open>ui.ts\<close> import nine functions from \<^verbatim>\<open>state.ts\<close>, which is not among
  the sources. The adapter code is modelled over an arbitrary implementation of them: a record
  with one field per imported function. A function that mutates the set it is given returns the
  set after the call; \<^verbatim>\<open>addTurn\<close> returns it together with its result.
\<close>

record engine =
  e_createEmptySet :: SetState
  e_startNewSet :: "string \<Rightarrow> string \<Rightarrow> jsnum \<Rightarrow> jsnum \<Rightarrow> SetState"
  e_addTurn :: "SetState \<Rightarrow> int \<Rightarrow> SetState \<times> AddTurnResult"
  e_removeLastTurn :: "SetState \<Rightarrow> SetState"
  e_canStartNextLeg :: "SetState \<Rightarrow> bool"
  e_startNextLeg :: "SetState \<Rightarrow> SetState"
  e_resetSet :: "SetState \<Rightarrow> SetState"
  e_getRemainingScoreForPlayer :: "LegState \<Rightarrow> PlayerId \<Rightarrow> int"
  e_getCurrentPlayerName :: "SetState \<Rightarrow> string"

section \<open>The user interface (ui.ts)\<close>

text \<open>
  \<^verbatim>\<open>UiElements\<close>: of every DOM element the fields that the program reads or writes. A table
  body is the list of its rows, a row the list of the texts of its cells. \<open>classList\<close> is the
  ordered token list of the message element. \<open>pointsInput_focused\<close> and
  \<open>pointsInput_selected\<close> record that \<^verbatim>\<open>focus()\<close> and \<^verbatim>\<open>select()\<close> were called.
\<close>

record UiElements =
  message_textContent :: string
  message_classList :: "string list"
  statusGame :: string
  statusMaxLegs :: string
  statusLegNumber :: string
  statusCurrentPlayer :: string
  playersTableBody :: "string list list"
  turnsTableBody :: "string list list"
  addTurnButton_disabled :: bool
  undoTurnButton_disabled :: bool
  newLegButton_disabled :: bool
  pointsInput_disabled :: bool
  pointsInput_value :: string
  pointsInput_focused :: bool
  pointsInput_selected :: bool

text \<open>
  The two module-level objects of \<^verbatim>\<open>main.ts\<close>: \<^verbatim>\<open>let setState\<close> and \<^verbatim>\<open>const ui\<close>. Every
  function of the adapter receives both objects by reference and could write to either, so it
  is modelled as a function on the pair.
\<close>

record app =
  setState :: SetState
  ui :: UiElements

subsection \<open>Strings\<close>

text \<open>
  \<^verbatim>\<open>String(n)\<close> for an integer \<open>n\<close>: its decimal numeral (JavaScript switches to exponent
  notation only from \<open>10^21\<close> on).
\<close>

fun natDigits :: "nat \<Rightarrow> string" where
  "natDigits n =
     (if n < 10 then [''0123456789'' ! n]
      else natDigits (n div 10) @ [''0123456789'' ! (n mod 10)])"

declare natDigits.simps [simp del]

definition String_int :: "int \<Rightarrow> string" where
  "String_int n = (if n < 0 then CHR ''-'' # natDigits (nat (- n)) else natDigits (nat n))"

text \<open>The placeholder of the status bar, an en dash (U+2013), as its UTF-8 bytes.\<close>

definition placeholder :: string where
  "placeholder = [CHR 0xE2, CHR 0x80, CHR 0x93]"

subsection \<open>Messages\<close>

text \<open>\<^verbatim>\<open>classList.remove(a, b)\<close> and \<^verbatim>\<open>classList.add(a)\<close> of a DOM token list.\<close>

definition classList_remove :: "string list \<Rightarrow> string list \<Rightarrow> string list" where
  "classList_remove toks cl = filter (\<lambda>t. t \<notin> set toks) cl"

definition classList_add :: "string \<Rightarrow> string list \<Rightarrow> string list" where
  "classList_add t cl = (if t \<in> set cl then cl else cl @ [t])"

definition showInfoMessage :: "app \<Rightarrow> string \<Rightarrow> app" where
  "showInfoMessage a text =
     a\<lparr>ui := (ui a)\<lparr>message_textContent := text,
         message_classList :=
           classList_add ''message--info''
             (classList_remove [''message--warning'', ''message--success'']
                (message_classList (ui a)))\<rparr>\<rparr>"

definition showWarningMessage :: "app \<Rightarrow> string \<Rightarrow> app" where
  "showWarningMessage a text =
     a\<lparr>ui := (ui a)\<lparr>message_textContent := text,
         message_classList :=
           classList_add ''message--warning''
             (classList_remove [''message--info'', ''message--success'']
                (message_classList (ui a)))\<rparr>\<rparr>"

definition showSuccessMessage :: "app \<Rightarrow> string \<Rightarrow> app" where
  "showSuccessMessage a text =
     a\<lparr>ui := (ui a)\<lparr>message_textContent := text,
         message_classList :=
           classList_add ''message--success''
             (classList_remove [''message--info'', ''message--warning'']
                (message_classList (ui a)))\<rparr>\<rparr>"

subsection \<open>Rendering\<close>

definition renderStatus :: "engine \<Rightarrow> app \<Rightarrow> app" where
  "renderStatus eng a =
     (case currentLeg (setState a) of
        None \<Rightarrow>
          a\<lparr>ui := (ui a)\<lparr>statusGame := placeholder, statusMaxLegs := placeholder,
                statusLegNumber := placeholder, statusCurrentPlayer := placeholder\<rparr>\<rparr>
      | Some leg \<Rightarrow>
          a\<lparr>ui := (ui a)\<lparr>
                statusGame := String_int (gameType (setState a)) @ '' down'',
                statusMaxLegs := ''Best of '' @ String_int (maxLegs (setState a)),
                statusLegNumber := String_int (legNumber leg),
                statusCurrentPlayer :=
                  (if isFinished (setState a) then ''Set finished''
                   else e_getCurrentPlayerName eng (setState a))\<rparr>\<rparr>)"

text \<open>One row of the players table: name, legs won, remaining score.\<close>

definition playerRow :: "engine \<Rightarrow> LegState \<Rightarrow> Player \<Rightarrow> string list" where
  "playerRow eng leg player =
     [name player, String_int (legsWon player),
      String_int (e_getRemainingScoreForPlayer eng leg (player_id player))]"

definition renderPlayersTable :: "engine \<Rightarrow> app \<Rightarrow> app" where
  "renderPlayersTable eng a =
     (let a1 = a\<lparr>ui := (ui a)\<lparr>playersTableBody := []\<rparr>\<rparr> in
      case currentLeg (setState a1) of
        None \<Rightarrow> a1
      | Some leg \<Rightarrow>
          foldl (\<lambda>b player.
                   b\<lparr>ui := (ui b)\<lparr>playersTableBody :=
                        playersTableBody (ui b) @ [playerRow eng leg player]\<rparr>\<rparr>)
            a1 (players (setState a1)))"

text \<open>
  One row of the turns table: index, player name, points, running score.
  \<^verbatim>\<open>players.find(p => p.id === turn.playerId)\<close> is the first player with that id.
\<close>

definition turnRow :: "Player list \<Rightarrow> nat \<Rightarrow> Turn \<Rightarrow> string list" where
  "turnRow ps index turn =
     [String_int (int index + 1),
      (case find (\<lambda>p. player_id p = playerId turn) ps of
         Some player \<Rightarrow> name player
       | None \<Rightarrow> ''?''),
      String_int (points turn),
      String_int (runningScore turn)]"

definition renderTurnsTable :: "app \<Rightarrow> app" where
  "renderTurnsTable a =
     (let a1 = a\<lparr>ui := (ui a)\<lparr>turnsTableBody := []\<rparr>\<rparr> in
      case currentLeg (setState a1) of
        None \<Rightarrow> a1
      | Some leg \<Rightarrow>
          foldl (\<lambda>b (index, turn).
                   b\<lparr>ui := (ui b)\<lparr>turnsTableBody :=
                        turnsTableBody (ui b) @ [turnRow (players (setState b)) index turn]\<rparr>\<rparr>)
            a1 (enumerate 0 (turns leg)))"

text \<open>The rows the two tables hold after rendering, as functions of the set.\<close>

definition playersRows :: "engine \<Rightarrow> SetState \<Rightarrow> string list list" where
  "playersRows eng s =
     (case currentLeg s of
        None \<Rightarrow> []
      | Some leg \<Rightarrow> map (playerRow eng leg) (players s))"

definition turnsRows :: "SetState \<Rightarrow> string list list" where
  "turnsRows s =
     (case currentLeg s of
        None \<Rightarrow> []
      | Some leg \<Rightarrow>
          map (\<lambda>(index, turn). turnRow (players s) index turn) (enumerate 0 (turns leg)))"

definition renderButtons :: "app \<Rightarrow> app" where
  "renderButtons a =
     (let leg = currentLeg (setState a);
          hasSet = (leg \<noteq> None);
          setFinished = isFinished (setState a);
          legFinished = (case leg of Some l \<Rightarrow> leg_isFinished l | None \<Rightarrow> False);
          a1 = a\<lparr>ui := (ui a)\<lparr>addTurnButton_disabled :=
                   (\<not> hasSet \<or> setFinished \<or> legFinished)\<rparr>\<rparr>;
          a2 = a1\<lparr>ui := (ui a1)\<lparr>undoTurnButton_disabled :=
                   (\<not> hasSet \<or> setFinished \<or> legFinished \<or>
                    (case leg of Some l \<Rightarrow> length (turns l) = 0 | None \<Rightarrow> False))\<rparr>\<rparr>;
          a3 = a2\<lparr>ui := (ui a2)\<lparr>newLegButton_disabled :=
                   (\<not> hasSet \<or> setFinished \<or> \<not> legFinished)\<rparr>\<rparr>
      in a3\<lparr>ui := (ui a3)\<lparr>pointsInput_disabled := addTurnButton_disabled (ui a3)\<rparr>\<rparr>)"

definition renderAll :: "engine \<Rightarrow> app \<Rightarrow> app" where
  "renderAll eng a =
     renderButtons (renderTurnsTable (renderPlayersTable eng (renderStatus eng a)))"

section \<open>The adapter (main.ts)\<close>

text \<open>
  The two built-in functions applied to user input, \<^verbatim>\<open>String.prototype.trim\<close> and
  \<^verbatim>\<open>Number\<close> on a string. Their full definitions (Unicode white space, the grammar of
  numeric literals, rounding to a double) are not part of this program; the adapter is
  modelled over an arbitrary pair of them.
\<close>

record builtins =
  trim :: "string \<Rightarrow> string"
  Number :: "string \<Rightarrow> jsnum"

text \<open>
  \<^verbatim>\<open>new FormData(setupForm)\<close>: \<^verbatim>\<open>formData.get(key)\<close> is the text of the field, or
  \<^verbatim>\<open>null\<close> (here \<open>None\<close>) when the form has no such field. The form has no file inputs.
\<close>

type_synonym FormData = "string \<Rightarrow> string option"

text \<open>\<^verbatim>\<open>String(formData.get(key) || dflt)\<close>: \<^verbatim>\<open>null\<close> and the empty string are falsy.\<close>

definition formString :: "FormData \<Rightarrow> string \<Rightarrow> string \<Rightarrow> string" where
  "formString formData key dflt =
     (case formData key of
        None \<Rightarrow> dflt
      | Some v \<Rightarrow> if v = [] then dflt else v)"

text \<open>\<^verbatim>\<open>Number(formData.get(key) || dflt)\<close> for an integer default.\<close>

definition formNumber :: "builtins \<Rightarrow> FormData \<Rightarrow> string \<Rightarrow> int \<Rightarrow> jsnum" where
  "formNumber js formData key dflt =
     (case formData key of
        None \<Rightarrow> JInt dflt
      | Some v \<Rightarrow> if v = [] then JInt dflt else Number js v)"

text \<open>
  The submit handler of the setup form. Whatever \<^verbatim>\<open>Number\<close> makes of the two numeric
  fields is passed to \<^verbatim>\<open>startNewSet\<close>; the handler tests neither.
\<close>

definition onSetupSubmit :: "engine \<Rightarrow> builtins \<Rightarrow> FormData \<Rightarrow> app \<Rightarrow> app" where
  "onSetupSubmit eng js formData a =
     (let player1 = formString formData ''player1'' ''Player 1'';
          player2 = formString formData ''player2'' ''Player 2'';
          gameTypeValue = formNumber js formData ''gameType'' 501;
          maxLegsValue = formNumber js formData ''maxLegs'' 5;
          a1 = a\<lparr>setState := e_startNewSet eng player1 player2 gameTypeValue maxLegsValue\<rparr>;
          a2 = renderAll eng a1;
          a3 = showInfoMessage a2 ''Set started. Enter points for the current player.''
      in a3\<lparr>ui := (ui a3)\<lparr>pointsInput_focused := True\<rparr>\<rparr>)"

definition onResetClick :: "engine \<Rightarrow> app \<Rightarrow> app" where
  "onResetClick eng a =
     (let a1 = a\<lparr>setState := e_resetSet eng (setState a)\<rparr>;
          a2 = renderAll eng a1
      in showInfoMessage a2 ''All data cleared. Start a new set.'')"

definition onUndoClick :: "engine \<Rightarrow> app \<Rightarrow> app" where
  "onUndoClick eng a =
     (let a1 = a\<lparr>setState := e_removeLastTurn eng (setState a)\<rparr>;
          a2 = renderAll eng a1
      in showInfoMessage a2 ''Last turn removed.'')"

definition onNewLegClick :: "engine \<Rightarrow> app \<Rightarrow> app" where
  "onNewLegClick eng a =
     (if \<not> e_canStartNextLeg eng (setState a) then a
      else
        let a1 = a\<lparr>setState := e_startNextLeg eng (setState a)\<rparr>;
            a2 = renderAll eng a1;
            a3 = showInfoMessage a2 ''New leg started. Continue scoring.''
        in a3\<lparr>ui := (ui a3)\<lparr>pointsInput_focused := True\<rparr>\<rparr>)"

text \<open>The three branches of \<^verbatim>\<open>handleAddTurn\<close> after the call of \<^verbatim>\<open>addTurn\<close>.\<close>

definition afterAddTurn :: "engine \<Rightarrow> int \<Rightarrow> AddTurnResult \<Rightarrow> app \<Rightarrow> app" where
  "afterAddTurn eng pts result a =
     (if legFinished result \<and> result_winner result \<noteq> None then
        (let a1 = renderAll eng a;
             winnerName = (case result_winner result of Some w \<Rightarrow> name w | None \<Rightarrow> [])
         in if isFinished (setState a1) then
              showSuccessMessage a1
                (''Leg won by '' @ winnerName @ ''. The set is finished. Overall winner: ''
                   @ winnerName @ ''.'')
            else
              showSuccessMessage a1
                (''Leg won by '' @ winnerName @ ''. Start the next leg when ready.''))
      else if \<not> legFinished result then
        (let a1 = (if pts = 0 then showInfoMessage a ''No score this turn. Next player's turn.''
                   else showInfoMessage a ''Turn recorded. Next player's turn.'')
         in renderAll eng a1)
      else
        showWarningMessage a ''This score would make the remaining points negative.'')"

definition handleAddTurn :: "engine \<Rightarrow> builtins \<Rightarrow> app \<Rightarrow> app" where
  "handleAddTurn eng js a =
     (let rawValue = trim js (pointsInput_value (ui a)) in
      if rawValue = [] then
        showWarningMessage a ''Please enter the points for this turn.''
      else
        case Number js rawValue of
          JNonInt \<Rightarrow> showWarningMessage a ''Points must be an integer between 0 and 180.''
        | JInt pts \<Rightarrow>
            if pts < 0 \<or> pts > 180 then
              showWarningMessage a ''Points must be an integer between 0 and 180.''
            else
              let (s', result) = e_addTurn eng (setState a) pts;
                  a1 = afterAddTurn eng pts result (a\<lparr>setState := s'\<rparr>)
              in a1\<lparr>ui := (ui a1)\<lparr>pointsInput_selected := True\<rparr>\<rparr>)"

text \<open>The keydown handler of the points input: Enter submits the turn.\<close>

definition onPointsKeydown :: "engine \<Rightarrow> builtins \<Rightarrow> string \<Rightarrow> app \<Rightarrow> app" where
  "onPointsKeydown eng js key a = (if key = ''Enter'' then handleAddTurn eng js a else a)"

text \<open>
  The start of the program: the set is \<^verbatim>\<open>createEmptySet()\<close>, and \<^verbatim>\<open>setupEventHandlers\<close>,
  after registering the handlers above, renders once.
\<close>

definition setupEventHandlers :: "engine \<Rightarrow> UiElements \<Rightarrow> app" where
  "setupEventHandlers eng u = renderAll eng \<lparr>setState = e_createEmptySet eng, ui = u\<rparr>"

text \<open>The user typing into the points input.\<close>

definition typePoints :: "string \<Rightarrow> app \<Rightarrow> app" where
  "typePoints v a = a\<lparr>ui := (ui a)\<lparr>pointsInput_value := v\<rparr>\<rparr>"

section \<open>The game state engine (state.ts), from the specification\<close>

text \<open>
  Modelled from the spec: \<^verbatim>\<open>createEmptySet\<close> of \<^verbatim>\<open>state.ts\<close>, which is not among the
  sources. A set with no players, no current leg and not finished. The specification does
  not say what \<open>gameType\<close> and \<open>maxLegs\<close> an empty set holds; the defaults of the setup form
  stand here, and nothing proved below depends on them.
\<close>

definition createEmptySet :: SetState where
  "createEmptySet =
     \<lparr>gameType = 501, maxLegs = 5, players = [], currentLeg = None,
      isFinished = False, winner = None\<rparr>"

text \<open>
  Modelled from the spec: \<^verbatim>\<open>startNewSet\<close> of \<^verbatim>\<open>state.ts\<close>, which is not among the sources.
  Two players with distinct ids and no legs won, and leg 1 with no turns.
\<close>

definition startNewSet :: "string \<Rightarrow> string \<Rightarrow> int \<Rightarrow> int \<Rightarrow> SetState" where
  "startNewSet player1Name player2Name g m =
     \<lparr>gameType = g, maxLegs = m,
      players = [\<lparr>player_id = 1, name = player1Name, legsWon = 0\<rparr>,
                 \<lparr>player_id = 2, name = player2Name, legsWon = 0\<rparr>],
      currentLeg = Some \<lparr>legNumber = 1, startingScore = g, turns = [],
                         leg_isFinished = False, leg_winner = None\<rparr>,
      isFinished = False, winner = None\<rparr>"

text \<open>
  Modelled from the spec: \<^verbatim>\<open>startNewSet\<close> as the adapter calls it, with the two numbers
  that \<^verbatim>\<open>Number\<close> returned. The specification describes a set whose \<open>gameType\<close> and
  \<open>maxLegs\<close> are integers and leaves other values to the caller's validation; this model of
  the engine starts a set for two integers and leaves the set empty otherwise. Nothing
  below runs this engine on a number that is not an integer.
\<close>

definition startNewSetOfNumbers :: "string \<Rightarrow> string \<Rightarrow> jsnum \<Rightarrow> jsnum \<Rightarrow> SetState" where
  "startNewSetOfNumbers player1Name player2Name gameTypeValue maxLegsValue =
     (case (gameTypeValue, maxLegsValue) of
        (JInt g, JInt m) \<Rightarrow> startNewSet player1Name player2Name g m
      | _ \<Rightarrow> createEmptySet)"

text \<open>The sum of the points of one player's turns.\<close>

definition sumPoints :: "Turn list \<Rightarrow> PlayerId \<Rightarrow> int" where
  "sumPoints ts pid = sum_list (map points (filter (\<lambda>t. playerId t = pid) ts))"

text \<open>The result of \<^verbatim>\<open>addTurn\<close> that reports no leg finish and no winner.\<close>

definition noLegFinish :: AddTurnResult where
  "noLegFinish = \<lparr>legFinished = False, result_winner = None\<rparr>"

text \<open>
  Modelled from the spec: \<^verbatim>\<open>addTurn\<close> of \<^verbatim>\<open>state.ts\<close>, which is not among the sources
  (section 4.1). A failed state precondition and a bust leave the set as it is and report no
  leg finish and no winner. The acting player is \<open>players[turns.length % 2]\<close>; a set with a
  current leg has two players, and the model leaves any other set unchanged. The range of
  \<open>pts\<close> is not checked here.
\<close>

definition addTurn :: "SetState \<Rightarrow> int \<Rightarrow> SetState \<times> AddTurnResult" where
  "addTurn s pts =
     (case currentLeg s of
        None \<Rightarrow> (s, noLegFinish)
      | Some leg \<Rightarrow>
          if leg_isFinished leg \<or> isFinished s then (s, noLegFinish)
          else
            let idx = length (turns leg) mod 2 in
            if length (players s) \<le> idx then (s, noLegFinish)
            else
              let player = players s ! idx;
                  remainingBefore = gameType s - sumPoints (turns leg) (player_id player);
                  running = remainingBefore - pts
              in
                if running < 0 then (s, noLegFinish)
                else
                  let leg1 = leg\<lparr>turns := turns leg @
                               [\<lparr>playerId = player_id player, points = pts,
                                 runningScore = running\<rparr>]\<rparr>
                  in
                    if running = 0 then
                      let player1 = player\<lparr>legsWon := legsWon player + 1\<rparr>;
                          leg2 = leg1\<lparr>leg_isFinished := True, leg_winner := Some player1\<rparr>;
                          s1 = s\<lparr>players := (players s)[idx := player1],
                                 currentLeg := Some leg2\<rparr>;
                          s2 = (if maxLegs s div 2 + 1 \<le> legsWon player1
                                then s1\<lparr>isFinished := True, winner := Some player1\<rparr>
                                else s1)
                      in (s2, \<lparr>legFinished = True, result_winner = Some player1\<rparr>)
                    else (s\<lparr>currentLeg := Some leg1\<rparr>, noLegFinish))"

text \<open>
  Modelled from the spec: \<^verbatim>\<open>removeLastTurn\<close> of \<^verbatim>\<open>state.ts\<close>, which is not among the
  sources. Removes the most recent turn; does nothing without a turn or once the leg or the
  set is finished.
\<close>

definition removeLastTurn :: "SetState \<Rightarrow> SetState" where
  "removeLastTurn s =
     (case currentLeg s of
        None \<Rightarrow> s
      | Some leg \<Rightarrow>
          if turns leg = [] \<or> leg_isFinished leg \<or> isFinished s then s
          else s\<lparr>currentLeg := Some (leg\<lparr>turns := butlast (turns leg)\<rparr>)\<rparr>)"

text \<open>
  Modelled from the spec: \<^verbatim>\<open>canStartNextLeg\<close> of \<^verbatim>\<open>state.ts\<close>, which is not among the
  sources: true iff \<open>currentLeg\<close> exists, is finished, and the set itself is not finished.
\<close>

definition canStartNextLeg :: "SetState \<Rightarrow> bool" where
  "canStartNextLeg s =
     (case currentLeg s of
        None \<Rightarrow> False
      | Some leg \<Rightarrow> leg_isFinished leg \<and> \<not> isFinished s)"

text \<open>
  Modelled from the spec: \<^verbatim>\<open>startNextLeg\<close> of \<^verbatim>\<open>state.ts\<close>, which is not among the
  sources. A new current leg with the next number and no turns; nothing else changes, and
  nothing at all where \<open>canStartNextLeg\<close> fails.
\<close>

definition startNextLeg :: "SetState \<Rightarrow> SetState" where
  "startNextLeg s =
     (case currentLeg s of
        None \<Rightarrow> s
      | Some leg \<Rightarrow>
          if canStartNextLeg s then
            s\<lparr>currentLeg := Some \<lparr>legNumber = legNumber leg + 1, startingScore = gameType s,
                                   turns = [], leg_isFinished = False, leg_winner = None\<rparr>\<rparr>
          else s)"

text \<open>
  Modelled from the spec: \<^verbatim>\<open>resetSet\<close> of \<^verbatim>\<open>state.ts\<close>, which is not among the sources:
  back to the empty set.
\<close>

definition resetSet :: "SetState \<Rightarrow> SetState" where
  "resetSet s = createEmptySet"

text \<open>
  Modelled from the spec: \<^verbatim>\<open>getRemainingScoreForPlayer\<close> of \<^verbatim>\<open>state.ts\<close>, which is not
  among the sources: the starting score minus the sum of that player's points in the leg.
\<close>

definition getRemainingScoreForPlayer :: "LegState \<Rightarrow> PlayerId \<Rightarrow> int" where
  "getRemainingScoreForPlayer leg pid = startingScore leg - sumPoints (turns leg) pid"

text \<open>
  Modelled from the spec: \<^verbatim>\<open>getCurrentPlayerName\<close> of \<^verbatim>\<open>state.ts\<close>, which is not among
  the sources: the name of \<open>players[turns.length % 2]\<close>. The specification requires a
  current, unfinished leg and says nothing of other sets; the model answers by the same rule
  when the leg is finished and with the empty string when there is no leg or no such player.
\<close>

definition getCurrentPlayerName :: "SetState \<Rightarrow> string" where
  "getCurrentPlayerName s =
     (case currentLeg s of
        None \<Rightarrow> []
      | Some leg \<Rightarrow>
          let idx = length (turns leg) mod 2 in
          if idx < length (players s) then name (players s ! idx) else [])"

text \<open>The engine of the specification, as an implementation of the imported functions.\<close>

definition specEngine :: engine where
  "specEngine =
     \<lparr>e_createEmptySet = createEmptySet,
      e_startNewSet = startNewSetOfNumbers,
      e_addTurn = addTurn,
      e_removeLastTurn = removeLastTurn,
      e_canStartNextLeg = canStartNextLeg,
      e_startNextLeg = startNextLeg,
      e_resetSet = resetSet,
      e_getRemainingScoreForPlayer = getRemainingScoreForPlayer,
      e_getCurrentPlayerName = getCurrentPlayerName\<rparr>"

subsection \<open>Sequences of engine operations\<close>

datatype engineOp = AddTurn int | RemoveLastTurn | StartNextLeg

fun applyOp :: "SetState \<Rightarrow> engineOp \<Rightarrow> SetState" where
  "applyOp s (AddTurn pts) = fst (addTurn s pts)"
| "applyOp s RemoveLastTurn = removeLastTurn s"
| "applyOp s StartNextLeg = startNextLeg s"

definition applyOps :: "SetState \<Rightarrow> engineOp list \<Rightarrow> SetState" where
  "applyOps s ops = foldl applyOp s ops"

text \<open>A valid turn has between 0 and 180 points, as the adapter checks before the call.\<close>

fun validOp :: "engineOp \<Rightarrow> bool" where
  "validOp (AddTurn pts) = (0 \<le> pts \<and> pts \<le> 180)"
| "validOp RemoveLastTurn = True"
| "validOp StartNextLeg = True"

subsection \<open>Concrete inputs\<close>

text \<open>
  A pair of built-ins for concrete runs: \<open>trim\<close> strips ASCII white space, and \<open>Number\<close>
  reads a string of decimal digits. On such strings (of value below \<open>2^53\<close>) they agree with
  JavaScript; \<open>decimalNumber\<close> answers \<open>JNonInt\<close> on every other string, which JavaScript
  does not (\<^verbatim>\<open>"1e2"\<close> is 100 there), so it is used on digit strings only.
\<close>

definition isAsciiSpace :: "char \<Rightarrow> bool" where
  "isAsciiSpace c = (c \<in> set [CHR 0x09, CHR 0x0A, CHR 0x0B, CHR 0x0C, CHR 0x0D, CHR 0x20])"

definition asciiTrim :: "string \<Rightarrow> string" where
  "asciiTrim s = rev (dropWhile isAsciiSpace (rev (dropWhile isAsciiSpace s)))"

definition digitValue :: "char \<Rightarrow> nat option" where
  "digitValue c = map_of (zip ''0123456789'' [0 ..< 10]) c"

fun decimalValue :: "nat \<Rightarrow> string \<Rightarrow> nat option" where
  "decimalValue acc [] = Some acc"
| "decimalValue acc (c # cs) =
     (case digitValue c of
        None \<Rightarrow> None
      | Some d \<Rightarrow> decimalValue (10 * acc + d) cs)"

definition decimalNumber :: "string \<Rightarrow> jsnum" where
  "decimalNumber s =
     (if s = [] then JNonInt
      else case decimalValue 0 s of None \<Rightarrow> JNonInt | Some n \<Rightarrow> JInt (int n))"

definition sampleBuiltins :: builtins where
  "sampleBuiltins = \<lparr>trim = asciiTrim, Number = decimalNumber\<rparr>"

text \<open>A page as it is before the program runs: empty texts, nothing disabled.\<close>

definition blankUi :: UiElements where
  "blankUi =
     \<lparr>message_textContent = [], message_classList = [],
      statusGame = [], statusMaxLegs = [], statusLegNumber = [], statusCurrentPlayer = [],
      playersTableBody = [], turnsTableBody = [],
      addTurnButton_disabled = False, undoTurnButton_disabled = False,
      newLegButton_disabled = False, pointsInput_disabled = False,
      pointsInput_value = [], pointsInput_focused = False, pointsInput_selected = False\<rparr>"

text \<open>Submitting the points \<open>v\<close>: the user types them and submits the turn form.\<close>

definition submitPoints :: "string \<Rightarrow> app \<Rightarrow> app" where
  "submitPoints v a = handleAddTurn specEngine sampleBuiltins (typePoints v a)"

text \<open>A set of 301 between Ann and Bob, best of 5, started through the setup form.\<close>

definition sampleForm :: FormData where
  "sampleForm =
     [''player1'' \<mapsto> ''Ann'', ''player2'' \<mapsto> ''Bob'', ''gameType'' \<mapsto> ''301'',
      ''maxLegs'' \<mapsto> ''5'']"

definition startedApp :: app where
  "startedApp =
     onSetupSubmit specEngine sampleBuiltins sampleForm (setupEventHandlers specEngine blankUi)"

text \<open>Ann scores 180 and Bob 0: Ann has 121 left, and it is her turn.\<close>

definition twoTurnsApp :: app where
  "twoTurnsApp = submitPoints ''0'' (submitPoints ''180'' startedApp)"

text \<open>Ann then checks out with 121: the leg is won, the set goes on.\<close>

definition wonLegApp :: app where
  "wonLegApp = submitPoints ''121'' twoTurnsApp"

section \<open>Predicates of the specification\<close>

text \<open>
  The state preconditions of \<^verbatim>\<open>addTurn\<close> in the words of the specification: the current leg
  exists, the leg is not finished, the set is not finished.
\<close>

definition addTurnStatePreconditions :: "SetState \<Rightarrow> bool" where
  "addTurnStatePreconditions s =
     (case currentLeg s of
        None \<Rightarrow> False
      | Some leg \<Rightarrow> \<not> leg_isFinished leg \<and> \<not> isFinished s)"

text \<open>
  A turn is rejected as a bust when the state preconditions hold and the acting player's
  remaining score minus the points is negative.
\<close>

definition isBust :: "SetState \<Rightarrow> int \<Rightarrow> bool" where
  "isBust s pts =
     (case currentLeg s of
        None \<Rightarrow> False
      | Some leg \<Rightarrow>
          let idx = length (turns leg) mod 2 in
          \<not> leg_isFinished leg \<and> \<not> isFinished s \<and> idx < length (players s) \<and>
          gameType s - sumPoints (turns leg) (player_id (players s ! idx)) - pts < 0)"

text \<open>
  The bound on the points sums, as an invariant of the set: the starting score is not
  negative, no recorded turn has negative points, and no player's points in the current leg
  sum to more than the starting score.
\<close>

definition sumsBounded :: "SetState \<Rightarrow> bool" where
  "sumsBounded s =
     (0 \<le> gameType s \<and>
      (\<forall>leg. currentLeg s = Some leg \<longrightarrow>
         (\<forall>t\<in>set (turns leg). 0 \<le> points t) \<and>
         (\<forall>pid. sumPoints (turns leg) pid \<le> gameType s)))"

section \<open>Rendering: closed forms and frame lemmas\<close>

lemma foldl_playersRows:
  "foldl (\<lambda>b player.
            b\<lparr>ui := (ui b)\<lparr>playersTableBody := playersTableBody (ui b) @ [f player]\<rparr>\<rparr>) a ps
     = a\<lparr>ui := (ui a)\<lparr>playersTableBody := playersTableBody (ui a) @ map f ps\<rparr>\<rparr>"
  by (induction ps arbitrary: a) simp_all

lemma foldl_turnsRows:
  "foldl (\<lambda>b (index, turn).
            b\<lparr>ui := (ui b)\<lparr>turnsTableBody :=
                 turnsTableBody (ui b) @ [turnRow (players (setState b)) index turn]\<rparr>\<rparr>) a its
     = a\<lparr>ui := (ui a)\<lparr>turnsTableBody := turnsTableBody (ui a)
            @ map (\<lambda>(index, turn). turnRow (players (setState a)) index turn) its\<rparr>\<rparr>"
  by (induction its arbitrary: a) (simp_all add: case_prod_beta)

lemma renderPlayersTable_eq:
  "renderPlayersTable eng a =
     a\<lparr>ui := (ui a)\<lparr>playersTableBody := playersRows eng (setState a)\<rparr>\<rparr>"
  by (simp add: renderPlayersTable_def playersRows_def foldl_playersRows split: option.split)

lemma renderTurnsTable_eq:
  "renderTurnsTable a = a\<lparr>ui := (ui a)\<lparr>turnsTableBody := turnsRows (setState a)\<rparr>\<rparr>"
  by (simp add: renderTurnsTable_def turnsRows_def foldl_turnsRows split: option.split)

lemma renderStatus_None:
  "currentLeg (setState a) = None \<Longrightarrow>
   renderStatus eng a =
     a\<lparr>ui := (ui a)\<lparr>statusGame := placeholder, statusMaxLegs := placeholder,
           statusLegNumber := placeholder, statusCurrentPlayer := placeholder\<rparr>\<rparr>"
  by (simp add: renderStatus_def)

lemma renderStatus_Some:
  "currentLeg (setState a) = Some leg \<Longrightarrow>
   renderStatus eng a =
     a\<lparr>ui := (ui a)\<lparr>
           statusGame := String_int (gameType (setState a)) @ '' down'',
           statusMaxLegs := ''Best of '' @ String_int (maxLegs (setState a)),
           statusLegNumber := String_int (legNumber leg),
           statusCurrentPlayer :=
             (if isFinished (setState a) then ''Set finished''
              else e_getCurrentPlayerName eng (setState a))\<rparr>\<rparr>"
  by (simp add: renderStatus_def)

lemma setState_renderStatus: "setState (renderStatus eng a) = setState a"
  by (simp add: renderStatus_def split: option.split)

lemma setState_renderPlayersTable: "setState (renderPlayersTable eng a) = setState a"
  by (simp add: renderPlayersTable_eq)

lemma setState_renderTurnsTable: "setState (renderTurnsTable a) = setState a"
  by (simp add: renderTurnsTable_eq)

lemma setState_renderButtons: "setState (renderButtons a) = setState a"
  by (simp add: renderButtons_def Let_def)

lemma setState_renderAll: "setState (renderAll eng a) = setState a"
  by (simp add: renderAll_def setState_renderButtons setState_renderTurnsTable
      setState_renderPlayersTable setState_renderStatus)

lemma setState_showMessage:
  "setState (showInfoMessage a txt) = setState a"
  "setState (showWarningMessage a txt) = setState a"
  "setState (showSuccessMessage a txt) = setState a"
  by (simp_all add: showInfoMessage_def showWarningMessage_def showSuccessMessage_def)

lemma classList_after:
  "t \<notin> set toks \<Longrightarrow> t \<in> set (classList_add t (classList_remove toks cl))"
  "u \<in> set toks \<Longrightarrow> u \<noteq> t \<Longrightarrow> u \<notin> set (classList_add t (classList_remove toks cl))"
  by (auto simp: classList_add_def classList_remove_def)

section \<open>Buttons\<close>

text \<open>
  C5. After \<^verbatim>\<open>renderButtons\<close> the add-turn button is disabled iff the set has no current
  leg, or the set is finished, or the current leg is finished; the points input is disabled
  exactly when the button is; so turn entry is enabled exactly when the state preconditions
  of \<^verbatim>\<open>addTurn\<close> hold.
\<close>

theorem renderButtons_turn_entry:
  "addTurnButton_disabled (ui (renderButtons a)) =
     (case currentLeg (setState a) of
        None \<Rightarrow> True
      | Some leg \<Rightarrow> isFinished (setState a) \<or> leg_isFinished leg) \<and>
   pointsInput_disabled (ui (renderButtons a)) = addTurnButton_disabled (ui (renderButtons a)) \<and>
   (\<not> addTurnButton_disabled (ui (renderButtons a))) = addTurnStatePreconditions (setState a)"
  by (auto simp: renderButtons_def Let_def addTurnStatePreconditions_def split: option.split)

theorem renderButtons_turn_entry_witness:
  "addTurnStatePreconditions (setState startedApp) \<and>
   \<not> addTurnButton_disabled (ui (renderButtons startedApp)) \<and>
   \<not> pointsInput_disabled (ui (renderButtons startedApp)) \<and>
   \<not> addTurnStatePreconditions (setState wonLegApp) \<and>
   addTurnButton_disabled (ui (renderButtons wonLegApp)) \<and>
   pointsInput_disabled (ui (renderButtons wonLegApp))"
proof -
  have open_leg: "addTurnStatePreconditions (setState startedApp)"
    by code_simp
  have won_leg: "\<not> addTurnStatePreconditions (setState wonLegApp)"
    by code_simp
  from open_leg won_leg renderButtons_turn_entry [of startedApp]
    renderButtons_turn_entry [of wonLegApp]
  show ?thesis by blast
qed

text \<open>
  C6. \<^verbatim>\<open>renderButtons\<close> enables the new-leg button exactly when \<open>canStartNextLeg\<close> holds of
  the set (a current leg exists, it is finished, the set is not finished); the click handler
  leaves everything as it is when the engine's \<^verbatim>\<open>canStartNextLeg\<close> answers false, and
  otherwise the set becomes the one \<^verbatim>\<open>startNextLeg\<close> returns.
\<close>

theorem newLeg_button_canStartNextLeg:
  "(\<not> newLegButton_disabled (ui (renderButtons a))) = canStartNextLeg (setState a) \<and>
   (\<not> e_canStartNextLeg eng (setState a) \<longrightarrow> onNewLegClick eng a = a) \<and>
   (e_canStartNextLeg eng (setState a) \<longrightarrow>
      setState (onNewLegClick eng a) = e_startNextLeg eng (setState a))"
  by (auto simp: renderButtons_def Let_def canStartNextLeg_def onNewLegClick_def
      setState_renderAll setState_showMessage split: option.split)

theorem newLeg_button_canStartNextLeg_witness:
  "canStartNextLeg (setState wonLegApp) \<and>
   \<not> newLegButton_disabled (ui (renderButtons wonLegApp)) \<and>
   setState (onNewLegClick specEngine wonLegApp) = startNextLeg (setState wonLegApp) \<and>
   \<not> canStartNextLeg (setState startedApp) \<and>
   newLegButton_disabled (ui (renderButtons startedApp)) \<and>
   onNewLegClick specEngine startedApp = startedApp"
proof -
  have eng: "e_canStartNextLeg specEngine = canStartNextLeg"
    "e_startNextLeg specEngine = startNextLeg"
    by (simp_all add: specEngine_def)
  have won_leg: "canStartNextLeg (setState wonLegApp)"
    by code_simp
  have open_leg: "\<not> canStartNextLeg (setState startedApp)"
    by code_simp
  from won_leg open_leg newLeg_button_canStartNextLeg [of wonLegApp specEngine]
    newLeg_button_canStartNextLeg [of startedApp specEngine]
  show ?thesis unfolding eng by blast
qed

section \<open>Rendering and messages\<close>

text \<open>
  C8. Rendering never changes the game state: after \<^verbatim>\<open>renderAll\<close>, \<^verbatim>\<open>renderStatus\<close>,
  \<^verbatim>\<open>renderPlayersTable\<close>, \<^verbatim>\<open>renderTurnsTable\<close> or \<^verbatim>\<open>renderButtons\<close> the set (all its
  fields, its players, its current leg and the leg's turns) is the set before the call, for
  every implementation of the two queries that only returns a value.
\<close>

theorem rendering_keeps_setState:
  "setState (renderAll eng a) = setState a \<and>
   setState (renderStatus eng a) = setState a \<and>
   setState (renderPlayersTable eng a) = setState a \<and>
   setState (renderTurnsTable a) = setState a \<and>
   setState (renderButtons a) = setState a"
  by (simp add: setState_renderAll setState_renderStatus setState_renderPlayersTable
      setState_renderTurnsTable setState_renderButtons)

theorem rendering_keeps_setState_witness:
  "turns (the (currentLeg (setState twoTurnsApp))) =
     [\<lparr>playerId = 1, points = 180, runningScore = 121\<rparr>,
      \<lparr>playerId = 2, points = 0, runningScore = 301\<rparr>] \<and>
   setState (renderAll specEngine twoTurnsApp) = setState twoTurnsApp"
proof -
  have recorded: "turns (the (currentLeg (setState twoTurnsApp))) =
     [\<lparr>playerId = 1, points = 180, runningScore = 121\<rparr>,
      \<lparr>playerId = 2, points = 0, runningScore = 301\<rparr>]"
    by code_simp
  from recorded rendering_keeps_setState [of specEngine twoTurnsApp] show ?thesis
    by blast
qed

text \<open>
  C9. After \<^verbatim>\<open>showInfoMessage\<close>, \<^verbatim>\<open>showWarningMessage\<close> or \<^verbatim>\<open>showSuccessMessage\<close> the
  message element holds the given text, and of the three styling classes it carries the one
  of the call and neither of the other two, whatever classes it carried before.
\<close>

theorem showMessage_text_and_class:
  "message_textContent (ui (showInfoMessage a txt)) = txt \<and>
   ''message--info'' \<in> set (message_classList (ui (showInfoMessage a txt))) \<and>
   ''message--warning'' \<notin> set (message_classList (ui (showInfoMessage a txt))) \<and>
   ''message--success'' \<notin> set (message_classList (ui (showInfoMessage a txt))) \<and>
   message_textContent (ui (showWarningMessage a txt)) = txt \<and>
   ''message--warning'' \<in> set (message_classList (ui (showWarningMessage a txt))) \<and>
   ''message--info'' \<notin> set (message_classList (ui (showWarningMessage a txt))) \<and>
   ''message--success'' \<notin> set (message_classList (ui (showWarningMessage a txt))) \<and>
   message_textContent (ui (showSuccessMessage a txt)) = txt \<and>
   ''message--success'' \<in> set (message_classList (ui (showSuccessMessage a txt))) \<and>
   ''message--info'' \<notin> set (message_classList (ui (showSuccessMessage a txt))) \<and>
   ''message--warning'' \<notin> set (message_classList (ui (showSuccessMessage a txt)))"
  by (simp add: showInfoMessage_def showWarningMessage_def showSuccessMessage_def
      classList_after)

theorem showMessage_text_and_class_witness:
  "''message--info'' \<in> set (message_classList (ui startedApp)) \<and>
   message_textContent (ui (showWarningMessage startedApp ''Busted'')) = ''Busted'' \<and>
   ''message--warning'' \<in> set (message_classList (ui (showWarningMessage startedApp ''Busted''))) \<and>
   ''message--info'' \<notin> set (message_classList (ui (showWarningMessage startedApp ''Busted''))) \<and>
   ''message--success'' \<notin> set (message_classList (ui (showWarningMessage startedApp ''Busted'')))"
proof -
  have before: "''message--info'' \<in> set (message_classList (ui startedApp))"
    by code_simp
  from before showMessage_text_and_class [of startedApp "''Busted''"] show ?thesis
    by blast
qed

text \<open>
  C10. Rendering is idempotent: both tables are cleared before their rows are appended, and
  \<^verbatim>\<open>renderAll\<close> run twice on the same set leaves the user interface (status texts, table
  rows, disabled flags) exactly as one run does.
\<close>

theorem renderAll_idempotent: "renderAll eng (renderAll eng a) = renderAll eng a"
proof (cases "currentLeg (setState a)")
  case None
  then show ?thesis
    unfolding renderAll_def renderPlayersTable_eq renderTurnsTable_eq
    by (simp add: renderStatus_None renderButtons_def Let_def)
next
  case (Some leg)
  then show ?thesis
    unfolding renderAll_def renderPlayersTable_eq renderTurnsTable_eq
    by (simp add: renderStatus_Some renderButtons_def Let_def)
qed

theorem renderAll_idempotent_witness:
  "turnsTableBody (ui (renderAll specEngine twoTurnsApp)) =
     [[''1'', ''Ann'', ''180'', ''121''], [''2'', ''Bob'', ''0'', ''301'']] \<and>
   renderAll specEngine (renderAll specEngine twoTurnsApp) = renderAll specEngine twoTurnsApp"
proof -
  have rows: "turnsTableBody (ui (renderAll specEngine twoTurnsApp)) =
     [[''1'', ''Ann'', ''180'', ''121''], [''2'', ''Bob'', ''0'', ''301'']]"
    by code_simp
  from rows renderAll_idempotent [of specEngine twoTurnsApp] show ?thesis
    by blast
qed

section \<open>The turn form\<close>

lemma setState_afterAddTurn: "setState (afterAddTurn eng pts r a) = setState a"
  by (simp add: afterAddTurn_def Let_def setState_renderAll setState_showMessage)

lemma showWarningMessage_effect:
  "setState (showWarningMessage a msg) = setState a"
  "message_textContent (ui (showWarningMessage a msg)) = msg"
  "''message--warning'' \<in> set (message_classList (ui (showWarningMessage a msg)))"
  "''message--info'' \<notin> set (message_classList (ui (showWarningMessage a msg)))"
  "''message--success'' \<notin> set (message_classList (ui (showWarningMessage a msg)))"
  by (simp_all add: showWarningMessage_def classList_after)

lemma showWarningMessage_ui:
  "ui (showWarningMessage a msg) =
     (ui a)\<lparr>message_textContent := message_textContent (ui (showWarningMessage a msg)),
            message_classList := message_classList (ui (showWarningMessage a msg))\<rparr>"
  by (simp add: showWarningMessage_def)

lemma handleAddTurn_empty:
  "trim js (pointsInput_value (ui a)) = [] \<Longrightarrow>
   handleAddTurn eng js a = showWarningMessage a ''Please enter the points for this turn.''"
  by (simp add: handleAddTurn_def)

lemma handleAddTurn_not_integer:
  "trim js (pointsInput_value (ui a)) \<noteq> [] \<Longrightarrow>
   Number js (trim js (pointsInput_value (ui a))) = JNonInt \<Longrightarrow>
   handleAddTurn eng js a = showWarningMessage a ''Points must be an integer between 0 and 180.''"
  by (simp add: handleAddTurn_def)

lemma handleAddTurn_out_of_range:
  "trim js (pointsInput_value (ui a)) \<noteq> [] \<Longrightarrow>
   Number js (trim js (pointsInput_value (ui a))) = JInt n \<Longrightarrow> n < 0 \<or> 180 < n \<Longrightarrow>
   handleAddTurn eng js a = showWarningMessage a ''Points must be an integer between 0 and 180.''"
  by (auto simp add: handleAddTurn_def)

lemma handleAddTurn_valid:
  "trim js (pointsInput_value (ui a)) \<noteq> [] \<Longrightarrow>
   Number js (trim js (pointsInput_value (ui a))) = JInt pts \<Longrightarrow> 0 \<le> pts \<Longrightarrow> pts \<le> 180 \<Longrightarrow>
   handleAddTurn eng js a =
     (let a1 = afterAddTurn eng pts (snd (e_addTurn eng (setState a) pts))
                 (a\<lparr>setState := fst (e_addTurn eng (setState a) pts)\<rparr>)
      in a1\<lparr>ui := (ui a1)\<lparr>pointsInput_selected := True\<rparr>\<rparr>)"
  by (simp add: handleAddTurn_def Let_def split: prod.split)

text \<open>
  C3. For every string in the points input: if the trimmed string is empty, or
  \<^verbatim>\<open>Number\<close> of it is not an integer, or is an integer outside 0..180, then
  \<^verbatim>\<open>handleAddTurn\<close> shows a warning and does nothing else: the message element holds the
  warning text and carries the class \<open>message--warning\<close> and neither of the other two
  styling classes, every other part of the user interface and the set are as before, and
  the result is the same whatever the engine is, so \<^verbatim>\<open>addTurn\<close> is not called. Otherwise
  the set becomes the one that \<^verbatim>\<open>addTurn\<close> returns for the parsed integer, and the rest of
  the result is computed from the result of that call.
\<close>

theorem handleAddTurn_validation:
  assumes raw: "raw = trim js (pointsInput_value (ui a))"
  shows
  "(raw = [] \<longrightarrow>
      handleAddTurn eng js a = showWarningMessage a ''Please enter the points for this turn.'' \<and>
      message_textContent (ui (handleAddTurn eng js a)) =
        ''Please enter the points for this turn.'') \<and>
   (raw \<noteq> [] \<and> (Number js raw = JNonInt \<or> (\<exists>n. Number js raw = JInt n \<and> (n < 0 \<or> 180 < n))) \<longrightarrow>
      handleAddTurn eng js a =
        showWarningMessage a ''Points must be an integer between 0 and 180.'' \<and>
      message_textContent (ui (handleAddTurn eng js a)) =
        ''Points must be an integer between 0 and 180.'') \<and>
   (raw = [] \<or> Number js raw = JNonInt \<or> (\<exists>n. Number js raw = JInt n \<and> (n < 0 \<or> 180 < n)) \<longrightarrow>
      setState (handleAddTurn eng js a) = setState a \<and>
      ''message--warning'' \<in> set (message_classList (ui (handleAddTurn eng js a))) \<and>
      ''message--info'' \<notin> set (message_classList (ui (handleAddTurn eng js a))) \<and>
      ''message--success'' \<notin> set (message_classList (ui (handleAddTurn eng js a))) \<and>
      ui (handleAddTurn eng js a) =
        (ui a)\<lparr>message_textContent := message_textContent (ui (handleAddTurn eng js a)),
               message_classList := message_classList (ui (handleAddTurn eng js a))\<rparr> \<and>
      handleAddTurn eng js a = handleAddTurn eng' js a) \<and>
   (raw \<noteq> [] \<and> Number js raw = JInt pts \<and> 0 \<le> pts \<and> pts \<le> 180 \<longrightarrow>
      setState (handleAddTurn eng js a) = fst (e_addTurn eng (setState a) pts) \<and>
      handleAddTurn eng js a =
        (let a1 = afterAddTurn eng pts (snd (e_addTurn eng (setState a) pts))
                    (a\<lparr>setState := fst (e_addTurn eng (setState a) pts)\<rparr>)
         in a1\<lparr>ui := (ui a1)\<lparr>pointsInput_selected := True\<rparr>\<rparr>))"
proof -
  let ?empty = "''Please enter the points for this turn.''"
  let ?range = "''Points must be an integer between 0 and 180.''"
  have empty: "handleAddTurn e js a = showWarningMessage a ?empty" if "raw = []" for e
    using that unfolding raw by (rule handleAddTurn_empty)
  have invalid: "handleAddTurn e js a = showWarningMessage a ?range"
    if ne: "raw \<noteq> []"
      and bad: "Number js raw = JNonInt \<or> (\<exists>n. Number js raw = JInt n \<and> (n < 0 \<or> 180 < n))"
    for e
  proof -
    from ne have ne': "trim js (pointsInput_value (ui a)) \<noteq> []"
      unfolding raw .
    from bad consider
      "Number js (trim js (pointsInput_value (ui a))) = JNonInt"
      | n where "Number js (trim js (pointsInput_value (ui a))) = JInt n" "n < 0 \<or> 180 < n"
      unfolding raw by blast
    then show ?thesis
    proof cases
      case 1
      with ne' show ?thesis by (rule handleAddTurn_not_integer)
    next
      case 2
      with ne' show ?thesis by (rule handleAddTurn_out_of_range)
    qed
  qed
  have refused: "\<exists>msg. \<forall>e. handleAddTurn e js a = showWarningMessage a msg"
    if "raw = [] \<or> Number js raw = JNonInt \<or> (\<exists>n. Number js raw = JInt n \<and> (n < 0 \<or> 180 < n))"
  proof (cases "raw = []")
    case True
    then have "\<forall>e. handleAddTurn e js a = showWarningMessage a ?empty"
      by (simp add: empty)
    then show ?thesis ..
  next
    case False
    with that have "\<forall>e. handleAddTurn e js a = showWarningMessage a ?range"
      by (simp add: invalid)
    then show ?thesis ..
  qed
  have valid: "handleAddTurn eng js a =
        (let a1 = afterAddTurn eng pts (snd (e_addTurn eng (setState a) pts))
                    (a\<lparr>setState := fst (e_addTurn eng (setState a) pts)\<rparr>)
         in a1\<lparr>ui := (ui a1)\<lparr>pointsInput_selected := True\<rparr>\<rparr>)"
    if "raw \<noteq> [] \<and> Number js raw = JInt pts \<and> 0 \<le> pts \<and> pts \<le> 180"
    using that unfolding raw
    by (elim conjE) (erule (3) handleAddTurn_valid)
  show ?thesis
  proof (intro conjI impI)
    assume "raw = []"
    then have e: "handleAddTurn eng js a = showWarningMessage a ?empty"
      by (rule empty)
    show "handleAddTurn eng js a = showWarningMessage a ?empty"
      by (rule e)
    show "message_textContent (ui (handleAddTurn eng js a)) = ?empty"
      unfolding e by (rule showWarningMessage_effect)
  next
    assume "raw \<noteq> [] \<and>
      (Number js raw = JNonInt \<or> (\<exists>n. Number js raw = JInt n \<and> (n < 0 \<or> 180 < n)))"
    then have e: "handleAddTurn eng js a = showWarningMessage a ?range"
      by (simp add: invalid)
    show "handleAddTurn eng js a = showWarningMessage a ?range"
      by (rule e)
    show "message_textContent (ui (handleAddTurn eng js a)) = ?range"
      unfolding e by (rule showWarningMessage_effect)
  next
    assume "raw = [] \<or> Number js raw = JNonInt \<or>
      (\<exists>n. Number js raw = JInt n \<and> (n < 0 \<or> 180 < n))"
    from refused [OF this] obtain msg
      where w: "\<And>e. handleAddTurn e js a = showWarningMessage a msg"
      by blast
    show "setState (handleAddTurn eng js a) = setState a"
      unfolding w by (rule showWarningMessage_effect)
    show "''message--warning'' \<in> set (message_classList (ui (handleAddTurn eng js a)))"
      unfolding w by (rule showWarningMessage_effect)
    show "''message--info'' \<notin> set (message_classList (ui (handleAddTurn eng js a)))"
      unfolding w by (rule showWarningMessage_effect)
    show "''message--success'' \<notin> set (message_classList (ui (handleAddTurn eng js a)))"
      unfolding w by (rule showWarningMessage_effect)
    show "ui (handleAddTurn eng js a) =
        (ui a)\<lparr>message_textContent := message_textContent (ui (handleAddTurn eng js a)),
               message_classList := message_classList (ui (handleAddTurn eng js a))\<rparr>"
      unfolding w by (rule showWarningMessage_ui)
    show "handleAddTurn eng js a = handleAddTurn eng' js a"
      unfolding w ..
  next
    assume h: "raw \<noteq> [] \<and> Number js raw = JInt pts \<and> 0 \<le> pts \<and> pts \<le> 180"
    show v: "handleAddTurn eng js a =
        (let a1 = afterAddTurn eng pts (snd (e_addTurn eng (setState a) pts))
                    (a\<lparr>setState := fst (e_addTurn eng (setState a) pts)\<rparr>)
         in a1\<lparr>ui := (ui a1)\<lparr>pointsInput_selected := True\<rparr>\<rparr>)"
      using h by (rule valid)
    show "setState (handleAddTurn eng js a) = fst (e_addTurn eng (setState a) pts)"
      unfolding v by (simp add: Let_def setState_afterAddTurn)
  qed
qed

theorem handleAddTurn_validation_witness:
  "trim sampleBuiltins (pointsInput_value (ui (typePoints '' 200 '' startedApp))) = ''200'' \<and>
   Number sampleBuiltins ''200'' = JInt 200 \<and>
   message_classList (ui (typePoints '' 200 '' startedApp)) = [''message--info''] \<and>
   handleAddTurn specEngine sampleBuiltins (typePoints '' 200 '' startedApp) =
     showWarningMessage (typePoints '' 200 '' startedApp)
       ''Points must be an integer between 0 and 180.'' \<and>
   message_textContent (ui (handleAddTurn specEngine sampleBuiltins
       (typePoints '' 200 '' startedApp))) =
     ''Points must be an integer between 0 and 180.'' \<and>
   ''message--warning'' \<in> set (message_classList (ui (handleAddTurn specEngine sampleBuiltins
       (typePoints '' 200 '' startedApp)))) \<and>
   ''message--info'' \<notin> set (message_classList (ui (handleAddTurn specEngine sampleBuiltins
       (typePoints '' 200 '' startedApp)))) \<and>
   setState (handleAddTurn specEngine sampleBuiltins (typePoints '' 200 '' startedApp)) =
     setState (typePoints '' 200 '' startedApp) \<and>
   trim sampleBuiltins (pointsInput_value (ui (typePoints ''60'' startedApp))) = ''60'' \<and>
   Number sampleBuiltins ''60'' = JInt 60 \<and>
   setState (handleAddTurn specEngine sampleBuiltins (typePoints ''60'' startedApp)) =
     fst (e_addTurn specEngine (setState (typePoints ''60'' startedApp)) 60)"
proof -
  have raw1: "''200'' = trim sampleBuiltins (pointsInput_value (ui (typePoints '' 200 '' startedApp)))"
    by code_simp
  have num1: "Number sampleBuiltins ''200'' = JInt 200"
    by code_simp
  have before: "message_classList (ui (typePoints '' 200 '' startedApp)) = [''message--info'']"
    by code_simp
  have raw2: "''60'' = trim sampleBuiltins (pointsInput_value (ui (typePoints ''60'' startedApp)))"
    by code_simp
  have num2: "Number sampleBuiltins ''60'' = JInt 60"
    by code_simp
  have ne: "''200'' \<noteq> []" "''60'' \<noteq> []" "\<not> (200::int) < 0" "(180::int) < 200"
    "(0::int) \<le> 60" "(60::int) \<le> 180"
    by simp_all
  from handleAddTurn_validation [OF raw1, of specEngine specEngine 0] num1 ne
  have bad: "handleAddTurn specEngine sampleBuiltins (typePoints '' 200 '' startedApp) =
       showWarningMessage (typePoints '' 200 '' startedApp)
         ''Points must be an integer between 0 and 180.'' \<and>
     message_textContent (ui (handleAddTurn specEngine sampleBuiltins
         (typePoints '' 200 '' startedApp))) =
       ''Points must be an integer between 0 and 180.'' \<and>
     ''message--warning'' \<in> set (message_classList (ui (handleAddTurn specEngine sampleBuiltins
         (typePoints '' 200 '' startedApp)))) \<and>
     ''message--info'' \<notin> set (message_classList (ui (handleAddTurn specEngine sampleBuiltins
         (typePoints '' 200 '' startedApp)))) \<and>
     setState (handleAddTurn specEngine sampleBuiltins (typePoints '' 200 '' startedApp)) =
       setState (typePoints '' 200 '' startedApp)"
    by blast
  from handleAddTurn_validation [OF raw2, of specEngine specEngine 60] num2 ne
  have good: "setState (handleAddTurn specEngine sampleBuiltins (typePoints ''60'' startedApp)) =
     fst (e_addTurn specEngine (setState (typePoints ''60'' startedApp)) 60)"
    by blast
  from raw1 [symmetric] num1 before bad raw2 [symmetric] num2 good show ?thesis
    by blast
qed

section \<open>The setup form\<close>





section \<open>The status line\<close>

text \<open>
  C4, as the claim states it, fails. Ann checks out with her second turn in a best-of-5 set:
  the set has a current leg, the set is not finished, and the current leg is finished. The
  user interface is the rendering of exactly this set, and its current-player cell holds
  what \<^verbatim>\<open>getCurrentPlayerName\<close> answers for it.
\<close>

theorem renderStatus_query_on_finished_leg:
  "currentLeg (setState wonLegApp) \<noteq> None \<and>
   \<not> isFinished (setState wonLegApp) \<and>
   map_option leg_isFinished (currentLeg (setState wonLegApp)) = Some True \<and>
   renderStatus specEngine wonLegApp = wonLegApp \<and>
   statusCurrentPlayer (ui wonLegApp) = getCurrentPlayerName (setState wonLegApp) \<and>
   statusCurrentPlayer (ui wonLegApp) = ''Bob''"
  by code_simp

text \<open>
  C4, amended. \<^verbatim>\<open>renderStatus\<close> calls \<^verbatim>\<open>getCurrentPlayerName\<close> exactly when a current
  leg exists and the set is not finished: then the current-player cell is the query's
  answer, and otherwise the rendering is the same for every implementation of the query.
  The leg itself is not tested.
\<close>

theorem renderStatus_query_guard:
  "(currentLeg (setState a) \<noteq> None \<and> \<not> isFinished (setState a) \<longrightarrow>
      statusCurrentPlayer (ui (renderStatus eng a)) = e_getCurrentPlayerName eng (setState a)) \<and>
   (currentLeg (setState a) = None \<or> isFinished (setState a) \<longrightarrow>
      renderStatus (eng\<lparr>e_getCurrentPlayerName := q\<rparr>) a = renderStatus eng a)"
  by (auto simp: renderStatus_def split: option.split)

theorem renderStatus_query_guard_witness:
  "currentLeg (setState startedApp) \<noteq> None \<and> \<not> isFinished (setState startedApp) \<and>
   statusCurrentPlayer (ui (renderStatus specEngine startedApp)) =
     e_getCurrentPlayerName specEngine (setState startedApp) \<and>
   currentLeg (setState (setupEventHandlers specEngine blankUi)) = None \<and>
   renderStatus (specEngine\<lparr>e_getCurrentPlayerName := (\<lambda>s. ''nobody'')\<rparr>)
       (setupEventHandlers specEngine blankUi) =
     renderStatus specEngine (setupEventHandlers specEngine blankUi)"
proof -
  have started: "currentLeg (setState startedApp) \<noteq> None \<and> \<not> isFinished (setState startedApp)"
    by code_simp
  have idle: "currentLeg (setState (setupEventHandlers specEngine blankUi)) = None"
    by code_simp
  from started idle renderStatus_query_guard [of startedApp specEngine]
    renderStatus_query_guard [of "setupEventHandlers specEngine blankUi" specEngine "\<lambda>s. ''nobody''"]
  show ?thesis by blast
qed

section \<open>The bust rule\<close>

lemma sumPoints_Nil: "sumPoints [] pid = 0"
  by (simp add: sumPoints_def)

lemma sumPoints_snoc:
  "sumPoints (ts @ [t]) pid = sumPoints ts pid + (if playerId t = pid then points t else 0)"
  by (simp add: sumPoints_def)

lemma sumPoints_butlast_le:
  "\<forall>t\<in>set ts. 0 \<le> points t \<Longrightarrow> sumPoints (butlast ts) pid \<le> sumPoints ts pid"
proof (cases ts rule: rev_cases)
  case Nil
  then show ?thesis by simp
next
  case (snoc ys y)
  assume "\<forall>t\<in>set ts. 0 \<le> points t"
  with snoc have "0 \<le> points y" by simp
  with snoc show ?thesis by (simp add: sumPoints_snoc)
qed

lemma gameType_addTurn: "gameType (fst (addTurn s pts)) = gameType s"
  by (simp add: addTurn_def Let_def split: option.split)

lemma addTurn_effect:
  "fst (addTurn s pts) = s \<or>
   (\<exists>leg leg' pid.
      currentLeg s = Some leg \<and> currentLeg (fst (addTurn s pts)) = Some leg' \<and>
      turns leg' = turns leg @
        [\<lparr>playerId = pid, points = pts,
          runningScore = gameType s - sumPoints (turns leg) pid - pts\<rparr>] \<and>
      0 \<le> gameType s - sumPoints (turns leg) pid - pts)"
  by (simp add: addTurn_def Let_def split: option.split)

lemma removeLastTurn_effect:
  "removeLastTurn s = s \<or>
   (\<exists>leg leg'. currentLeg s = Some leg \<and> currentLeg (removeLastTurn s) = Some leg' \<and>
      turns leg' = butlast (turns leg) \<and> gameType (removeLastTurn s) = gameType s)"
  by (simp add: removeLastTurn_def split: option.split)

lemma startNextLeg_effect:
  "startNextLeg s = s \<or>
   (\<exists>leg'. currentLeg (startNextLeg s) = Some leg' \<and> turns leg' = [] \<and>
      gameType (startNextLeg s) = gameType s)"
  by (simp add: startNextLeg_def split: option.split)

text \<open>No recorded turn has a negative running score.\<close>

lemma running_applyOp:
  assumes "\<forall>leg. currentLeg s = Some leg \<longrightarrow> (\<forall>t\<in>set (turns leg). 0 \<le> runningScore t)"
  shows "\<forall>leg. currentLeg (applyOp s op) = Some leg \<longrightarrow> (\<forall>t\<in>set (turns leg). 0 \<le> runningScore t)"
proof (cases op)
  case (AddTurn pts)
  from addTurn_effect [of s pts] assms show ?thesis
    unfolding AddTurn applyOp.simps by (elim disjE exE conjE) auto
next
  case RemoveLastTurn
  from removeLastTurn_effect [of s] assms show ?thesis
    unfolding RemoveLastTurn applyOp.simps
    by (elim disjE exE conjE) (auto dest: in_set_butlastD)
next
  case StartNextLeg
  from startNextLeg_effect [of s] assms show ?thesis
    unfolding StartNextLeg applyOp.simps by (elim disjE exE conjE) auto
qed

lemma running_applyOps:
  "\<forall>leg. currentLeg s = Some leg \<longrightarrow> (\<forall>t\<in>set (turns leg). 0 \<le> runningScore t) \<Longrightarrow>
   \<forall>leg. currentLeg (applyOps s ops) = Some leg \<longrightarrow> (\<forall>t\<in>set (turns leg). 0 \<le> runningScore t)"
  unfolding applyOps_def
proof (induction ops arbitrary: s)
  case Nil
  then show ?case by simp
next
  case (Cons op ops)
  from running_applyOp [OF Cons.prems] have "\<forall>leg. currentLeg (applyOp s op) = Some leg \<longrightarrow> (\<forall>t\<in>set (turns leg). 0 \<le> runningScore t)" .
  from Cons.IH [OF this] show ?case by simp
qed

text \<open>With a non-negative starting score, no player's points sum exceeds it.\<close>

lemma sums_applyOp:
  assumes inv: "sumsBounded s" and v: "validOp op"
  shows "sumsBounded (applyOp s op)"
proof (cases op)
  case (AddTurn pts)
  with v have pts: "0 \<le> pts" by simp
  from addTurn_effect [of s pts] inv pts gameType_addTurn [of s pts] show ?thesis
    unfolding AddTurn applyOp.simps sumsBounded_def
    by (elim disjE exE conjE) (auto simp: sumPoints_snoc)
next
  case RemoveLastTurn
  have "sumPoints (butlast (turns leg)) pid \<le> gameType s"
    if "currentLeg s = Some leg" for leg pid
  proof -
    from inv that have "\<forall>t\<in>set (turns leg). 0 \<le> points t" "sumPoints (turns leg) pid \<le> gameType s"
      by (auto simp: sumsBounded_def)
    with sumPoints_butlast_le [of "turns leg" pid] show ?thesis by linarith
  qed
  with removeLastTurn_effect [of s] inv show ?thesis
    unfolding RemoveLastTurn applyOp.simps sumsBounded_def
    by (elim disjE exE conjE) (auto dest: in_set_butlastD)
next
  case StartNextLeg
  from startNextLeg_effect [of s] inv show ?thesis
    unfolding StartNextLeg applyOp.simps sumsBounded_def
    by (elim disjE exE conjE) (auto simp: sumPoints_Nil)
qed

lemma sums_applyOps:
  "sumsBounded s \<Longrightarrow> \<forall>op\<in>set ops. validOp op \<Longrightarrow> sumsBounded (applyOps s ops)"
  unfolding applyOps_def
  by (induction ops arbitrary: s) (simp_all add: sums_applyOp)

lemma gameType_applyOps: "gameType (applyOps s ops) = gameType s"
  unfolding applyOps_def
proof (induction ops arbitrary: s)
  case Nil
  then show ?case by simp
next
  case (Cons op ops)
  have "gameType (applyOp s op) = gameType s"
    by (cases op) (simp_all add: gameType_addTurn removeLastTurn_def startNextLeg_def split: option.split)
  with Cons.IH [of "applyOp s op"] show ?case by simp
qed

text \<open>
  C2. After any sequence of engine operations on a newly started set in which every turn
  passed to \<^verbatim>\<open>addTurn\<close> has between 0 and 180 points, every turn recorded in the current
  leg has a running score of at least 0, and (for a starting score that is not negative) no
  player's points in the leg sum to more than \<open>gameType\<close>.
\<close>

theorem recorded_turns_never_bust:
  assumes valid: "\<forall>op\<in>set ops. validOp op"
    and leg: "currentLeg (applyOps (startNewSet p1 p2 g m) ops) = Some leg"
  shows "(\<forall>t\<in>set (turns leg). 0 \<le> runningScore t) \<and>
         (0 \<le> g \<longrightarrow> (\<forall>pid. sumPoints (turns leg) pid \<le> g))"
proof
  have "\<forall>leg. currentLeg (startNewSet p1 p2 g m) = Some leg \<longrightarrow> (\<forall>t\<in>set (turns leg). 0 \<le> runningScore t)"
    by (simp add: startNewSet_def)
  from running_applyOps [OF this, of ops] leg
  show "\<forall>t\<in>set (turns leg). 0 \<le> runningScore t" by simp
next
  show "0 \<le> g \<longrightarrow> (\<forall>pid. sumPoints (turns leg) pid \<le> g)"
  proof
    assume "0 \<le> g"
    then have "sumsBounded (startNewSet p1 p2 g m)"
      by (simp add: sumsBounded_def startNewSet_def sumPoints_Nil)
    from sums_applyOps [OF this valid] leg gameType_applyOps [of "startNewSet p1 p2 g m" ops]
    show "\<forall>pid. sumPoints (turns leg) pid \<le> g"
      by (simp add: sumsBounded_def startNewSet_def)
  qed
qed

theorem recorded_turns_never_bust_witness:
  "list_all validOp
     [AddTurn 180, AddTurn 0, AddTurn 180, AddTurn 60, RemoveLastTurn, AddTurn 100] \<and>
   currentLeg (applyOps (startNewSet ''Ann'' ''Bob'' 301 5)
      [AddTurn 180, AddTurn 0, AddTurn 180, AddTurn 60, RemoveLastTurn, AddTurn 100]) =
     Some \<lparr>legNumber = 1, startingScore = 301,
           turns = [\<lparr>playerId = 1, points = 180, runningScore = 121\<rparr>,
                    \<lparr>playerId = 2, points = 0, runningScore = 301\<rparr>,
                    \<lparr>playerId = 1, points = 100, runningScore = 21\<rparr>],
           leg_isFinished = False, leg_winner = None\<rparr> \<and>
   list_all (\<lambda>t. 0 \<le> runningScore t)
     [\<lparr>playerId = 1, points = 180, runningScore = 121\<rparr>,
      \<lparr>playerId = 2, points = 0, runningScore = 301\<rparr>,
      \<lparr>playerId = 1, points = 100, runningScore = 21\<rparr>] \<and>
   sumPoints [\<lparr>playerId = 1, points = 180, runningScore = 121\<rparr>,
              \<lparr>playerId = 2, points = 0, runningScore = 301\<rparr>,
              \<lparr>playerId = 1, points = 100, runningScore = 21\<rparr>] 1 \<le> 301 \<and>
   sumPoints [\<lparr>playerId = 1, points = 180, runningScore = 121\<rparr>,
              \<lparr>playerId = 2, points = 0, runningScore = 301\<rparr>,
              \<lparr>playerId = 1, points = 100, runningScore = 21\<rparr>] 2 \<le> 301"
proof -
  let ?ops = "[AddTurn 180, AddTurn 0, AddTurn 180, AddTurn 60, RemoveLastTurn, AddTurn 100]"
  let ?ts = "[\<lparr>playerId = 1, points = 180, runningScore = 121\<rparr>,
              \<lparr>playerId = 2, points = 0, runningScore = 301\<rparr>,
              \<lparr>playerId = 1, points = 100, runningScore = 21\<rparr>]"
  have valid: "\<forall>op\<in>set ?ops. validOp op"
    by simp
  have leg: "currentLeg (applyOps (startNewSet ''Ann'' ''Bob'' 301 5) ?ops) =
     Some \<lparr>legNumber = 1, startingScore = 301, turns = ?ts,
           leg_isFinished = False, leg_winner = None\<rparr>"
    by code_simp
  from recorded_turns_never_bust [OF valid leg] have
    bound: "(\<forall>t\<in>set ?ts. 0 \<le> runningScore t) \<and> (\<forall>pid. sumPoints ?ts pid \<le> 301)"
    by simp
  from bound have running: "list_all (\<lambda>t. 0 \<le> runningScore t) ?ts"
    unfolding list_all_iff by blast
  from bound have sums: "sumPoints ?ts 1 \<le> 301" "sumPoints ?ts 2 \<le> 301"
    by blast+
  from valid have "list_all validOp ?ops"
    unfolding list_all_iff .
  with leg running sums show ?thesis
    by blast
qed

text \<open>
  A bust leaves the set as it is and reports no leg finish and no winner; and \<^verbatim>\<open>addTurn\<close>
  never reports a finished leg without a winner, so the last branch of \<^verbatim>\<open>handleAddTurn\<close>,
  the one with the warning about negative remaining points, is never taken.
\<close>

lemma addTurn_bust: "isBust s pts \<Longrightarrow> addTurn s pts = (s, noLegFinish)"
  by (auto simp: isBust_def addTurn_def Let_def split: option.splits)

lemma addTurn_result_winner:
  "legFinished (snd (addTurn s pts)) \<Longrightarrow> result_winner (snd (addTurn s pts)) \<noteq> None"
  by (auto simp: addTurn_def noLegFinish_def Let_def split: option.splits if_splits)

lemma bust_warning_unreachable:
  "message_textContent (ui (afterAddTurn eng pts (snd (addTurn s pts)) a)) \<noteq>
     ''This score would make the remaining points negative.''"
proof (cases "legFinished (snd (addTurn s pts))")
  case True
  with addTurn_result_winner [of s pts] show ?thesis
    by (simp add: afterAddTurn_def Let_def showSuccessMessage_def)
next
  case False
  then show ?thesis
    by (simp add: afterAddTurn_def Let_def showInfoMessage_def renderAll_def
        renderButtons_def renderTurnsTable_eq renderPlayersTable_eq renderStatus_def
        split: option.split)
qed

lemma message_renderAll:
  "message_textContent (ui (renderAll eng a)) = message_textContent (ui a)"
proof (cases "currentLeg (setState a)")
  case None
  then show ?thesis
    unfolding renderAll_def renderPlayersTable_eq renderTurnsTable_eq
    by (simp add: renderStatus_None renderButtons_def Let_def)
next
  case (Some leg)
  then show ?thesis
    unfolding renderAll_def renderPlayersTable_eq renderTurnsTable_eq
    by (simp add: renderStatus_Some renderButtons_def Let_def)
qed

text \<open>
  Every bust that passes the adapter's validation leaves the set unchanged and ends with an
  info message, not with the warning.
\<close>

lemma bust_shows_info:
  assumes raw: "trim js (pointsInput_value (ui a)) \<noteq> []"
    and num: "Number js (trim js (pointsInput_value (ui a))) = JInt pts"
    and range: "0 \<le> pts" "pts \<le> 180"
    and bust: "isBust (setState a) pts"
  shows "setState (handleAddTurn specEngine js a) = setState a \<and>
         message_textContent (ui (handleAddTurn specEngine js a)) =
           (if pts = 0 then ''No score this turn. Next player's turn.''
            else ''Turn recorded. Next player's turn.'')"
proof -
  have eng: "e_addTurn specEngine = addTurn"
    by (simp add: specEngine_def)
  from raw num range
  have "handleAddTurn specEngine js a =
      (let a1 = afterAddTurn specEngine pts (snd (addTurn (setState a) pts))
                  (a\<lparr>setState := fst (addTurn (setState a) pts)\<rparr>)
       in a1\<lparr>ui := (ui a1)\<lparr>pointsInput_selected := True\<rparr>\<rparr>)"
    by (simp add: handleAddTurn_def Let_def eng split: prod.split)
  with addTurn_bust [OF bust] show ?thesis
    by (simp add: Let_def afterAddTurn_def noLegFinish_def message_renderAll
        setState_renderAll setState_showMessage showInfoMessage_def)
qed

text \<open>
  C1. A turn rejected as a bust appends no turn and leaves leg and set unchanged, and the
  result reports no leg finish and no winner; the adapter is to show the warning
  "This score would make the remaining points negative." and never "Turn recorded".
  The engine part holds (\<open>addTurn_bust\<close>). The adapter part does not: Ann has 121 left and
  enters 180; the set is unchanged, and the message is the info message "Turn recorded.
  Next player's turn.".
\<close>

theorem bust_reported_as_recorded:
  "isBust (setState twoTurnsApp) 180 \<and>
   setState (submitPoints ''180'' twoTurnsApp) = setState twoTurnsApp \<and>
   message_textContent (ui (submitPoints ''180'' twoTurnsApp)) =
     ''Turn recorded. Next player's turn.'' \<and>
   message_classList (ui (submitPoints ''180'' twoTurnsApp)) = [''message--info'']"
  by code_simp

end
